theory Spec2Isabelle
  imports Main "HOL-Library.Sublist"
begin

section \<open>Python values and exceptions\<close>

text \<open>
  The request payload, the provider's search result and the response body are JSON
  documents, held by the program as Python values: \<open>None\<close>, booleans, integers,
  strings, lists and dictionaries. A dictionary is kept as an association list in
  insertion order; its keys are distinct, as in a Python \<open>dict\<close>. Floating point
  numbers do not occur in any value the handler inspects and are left out.

  Strings are \<open>char list\<close>s. The character functions below cover ASCII text: a
  byte outside ASCII is left alone by \<open>py_lower\<close> and counts as neither a letter
  nor a digit.
\<close>

datatype json =
    JNull
  | JBool bool
  | JInt int
  | JStr string
  | JList "json list"
  | JDict "(string \<times> json) list"

text \<open>
  The exceptions the handler can meet. \<open>External\<close> is a failure raised inside a
  library call (Flask, NLTK, scikit-learn, spotipy) and carries that library's message.
\<close>

datatype py_error =
    AttributeError
  | TypeError
  | KeyError
  | IndexError
  | External string

text \<open>Truthiness of a value, as \<open>not data\<close> and \<open>x if c else y\<close> test it.\<close>

fun truthy :: "json \<Rightarrow> bool" where
  "truthy JNull = False"
| "truthy (JBool b) = b"
| "truthy (JInt n) = (n \<noteq> 0)"
| "truthy (JStr s) = (s \<noteq> [])"
| "truthy (JList xs) = (xs \<noteq> [])"
| "truthy (JDict kvs) = (kvs \<noteq> [])"

text \<open>\<open>key in data\<close> for a string key: key membership in a dictionary, element
  membership in a list, substring test in a string, \<open>TypeError\<close> otherwise.\<close>

fun py_in :: "string \<Rightarrow> json \<Rightarrow> py_error + bool" where
  "py_in k (JDict kvs) = Inr (k \<in> set (map fst kvs))"
| "py_in k (JList xs) = Inr (JStr k \<in> set xs)"
| "py_in k (JStr s) = Inr (sublist k s)"
| "py_in k JNull = Inl TypeError"
| "py_in k (JBool b) = Inl TypeError"
| "py_in k (JInt n) = Inl TypeError"

text \<open>\<open>data.get(key, default)\<close>: only a dictionary has the method.\<close>

fun py_get :: "json \<Rightarrow> string \<Rightarrow> json \<Rightarrow> py_error + json" where
  "py_get (JDict kvs) k d = Inr (case map_of kvs k of None \<Rightarrow> d | Some v \<Rightarrow> v)"
| "py_get JNull k d = Inl AttributeError"
| "py_get (JBool b) k d = Inl AttributeError"
| "py_get (JInt n) k d = Inl AttributeError"
| "py_get (JStr s) k d = Inl AttributeError"
| "py_get (JList xs) k d = Inl AttributeError"

text \<open>\<open>value[key]\<close> with a string key: a missing key of a dictionary is a
  \<open>KeyError\<close>, any other value refuses a string subscript with a \<open>TypeError\<close>.\<close>

fun subscript_key :: "json \<Rightarrow> string \<Rightarrow> py_error + json" where
  "subscript_key (JDict kvs) k = (case map_of kvs k of None \<Rightarrow> Inl KeyError | Some v \<Rightarrow> Inr v)"
| "subscript_key JNull k = Inl TypeError"
| "subscript_key (JBool b) k = Inl TypeError"
| "subscript_key (JInt n) k = Inl TypeError"
| "subscript_key (JStr s) k = Inl TypeError"
| "subscript_key (JList xs) k = Inl TypeError"

text \<open>\<open>value[0]\<close>: the first element of a list or the first character of a string
  (\<open>IndexError\<close> when empty); a dictionary with string keys has no key \<open>0\<close>.\<close>

fun subscript_zero :: "json \<Rightarrow> py_error + json" where
  "subscript_zero (JList []) = Inl IndexError"
| "subscript_zero (JList (x # xs)) = Inr x"
| "subscript_zero (JStr []) = Inl IndexError"
| "subscript_zero (JStr (c # cs)) = Inr (JStr [c])"
| "subscript_zero (JDict kvs) = Inl KeyError"
| "subscript_zero JNull = Inl TypeError"
| "subscript_zero (JBool b) = Inl TypeError"
| "subscript_zero (JInt n) = Inl TypeError"

text \<open>The values a \<open>for\<close> loop draws from a value: the elements of a list, the keys
  of a dictionary, the characters of a string.\<close>

fun py_iter :: "json \<Rightarrow> py_error + json list" where
  "py_iter (JList xs) = Inr xs"
| "py_iter (JDict kvs) = Inr (map (\<lambda>kv. JStr (fst kv)) kvs)"
| "py_iter (JStr s) = Inr (map (\<lambda>c. JStr [c]) s)"
| "py_iter JNull = Inl TypeError"
| "py_iter (JBool b) = Inl TypeError"
| "py_iter (JInt n) = Inl TypeError"

text \<open>\<open>d.get(key, default)\<close> on one of the program's constant tables.\<close>

definition table_get :: "('k \<times> 'v) list \<Rightarrow> 'k \<Rightarrow> 'v \<Rightarrow> 'v" where
  "table_get tab k d = (case map_of tab k of None \<Rightarrow> d | Some v \<Rightarrow> v)"

section \<open>The constant tables of \<open>app.py\<close>\<close>

definition MOOD_MAP :: "(int \<times> string) list" where
  "MOOD_MAP =
     [(0, ''sadness''), (1, ''joy''), (2, ''love''), (3, ''anger''), (4, ''fear''),
      (5, ''surprise'')]"

definition MOOD_KEYWORDS :: "(string \<times> string) list" where
  "MOOD_KEYWORDS =
     [(''joy'', ''happy''), (''sadness'', ''sad''), (''anger'', ''angry''),
      (''love'', ''love''), (''fear'', ''dark''), (''surprise'', ''surprise''),
      (''uplift'', ''uplifting'')]"

definition LANGUAGE_KEYWORDS :: "(string \<times> string) list" where
  "LANGUAGE_KEYWORDS = [(''en'', ''english''), (''te'', ''telugu''), (''hi'', ''hindi'')]"

section \<open>Steps 2 to 4 of \<open>api_predict\<close>: label, search mood, query\<close>

text \<open>\<open>mood = MOOD_MAP.get(prediction, "joy")\<close>\<close>

definition mood_of_prediction :: "int \<Rightarrow> string" where
  "mood_of_prediction prediction = table_get MOOD_MAP prediction ''joy''"

text \<open>
  \<^verbatim>\<open>
  if user_preference == "uplift" and mood in ["sadness", "anger", "fear"]:
      search_mood = "uplift"
  else:
      search_mood = mood
  \<close>
  The preference is whatever value the payload carries under \<open>preference\<close>.
\<close>

definition resolve_search_mood :: "json \<Rightarrow> string \<Rightarrow> string" where
  "resolve_search_mood user_preference mood =
     (if user_preference = JStr ''uplift'' \<and> mood \<in> set [''sadness'', ''anger'', ''fear'']
      then ''uplift'' else mood)"

text \<open>A dictionary lookup hashes its key: a list or a dictionary is unhashable.\<close>

fun language_keyword :: "json \<Rightarrow> py_error + string" where
  "language_keyword (JStr l) = Inr (table_get LANGUAGE_KEYWORDS l ''english'')"
| "language_keyword (JList xs) = Inl TypeError"
| "language_keyword (JDict kvs) = Inl TypeError"
| "language_keyword JNull = Inr ''english''"
| "language_keyword (JBool b) = Inr ''english''"
| "language_keyword (JInt n) = Inr ''english''"

text \<open>
  \<^verbatim>\<open>
  mood_keyword = MOOD_KEYWORDS.get(search_mood, "happy")
  lang_keyword = LANGUAGE_KEYWORDS.get(language_choice, "english")
  query = f"{mood_keyword} {lang_keyword}"
  \<close>
\<close>

definition build_query :: "string \<Rightarrow> json \<Rightarrow> py_error + string" where
  "build_query search_mood language_choice =
     (let mood_keyword = table_get MOOD_KEYWORDS search_mood ''happy'' in
      case language_keyword language_choice of
        Inl e \<Rightarrow> Inl e
      | Inr lang_keyword \<Rightarrow> Inr (mood_keyword @ '' '' @ lang_keyword))"

section \<open>Text pre-processing\<close>

text \<open>Python's \<open>string.ascii_lowercase\<close>, \<open>string.ascii_uppercase\<close> and
  \<open>string.digits\<close>, and the \<open>str\<close> methods built on them.\<close>

definition ascii_lowercase :: string where
  "ascii_lowercase = ''abcdefghijklmnopqrstuvwxyz''"

definition ascii_uppercase :: string where
  "ascii_uppercase = ''ABCDEFGHIJKLMNOPQRSTUVWXYZ''"

definition digits :: string where
  "digits = ''0123456789''"

definition lower_char :: "char \<Rightarrow> char" where
  "lower_char c = table_get (zip ascii_uppercase ascii_lowercase) c c"

definition py_lower :: "string \<Rightarrow> string" where
  "py_lower s = map lower_char s"

text \<open>\<open>s.isalnum()\<close> and \<open>s.isalpha()\<close> are false on the empty string.\<close>

definition py_isalnum :: "string \<Rightarrow> bool" where
  "py_isalnum s =
     (s \<noteq> [] \<and> list_all (\<lambda>c. c \<in> set (ascii_lowercase @ ascii_uppercase @ digits)) s)"

definition py_isalpha :: "string \<Rightarrow> bool" where
  "py_isalpha s = (s \<noteq> [] \<and> list_all (\<lambda>c. c \<in> set (ascii_lowercase @ ascii_uppercase)) s)"

text \<open>\<open>sep.join(parts)\<close>\<close>

fun py_join :: "string \<Rightarrow> string list \<Rightarrow> string" where
  "py_join sep [] = []"
| "py_join sep [x] = x"
| "py_join sep (x # y # ys) = x @ sep @ py_join sep (y # ys)"

text \<open>
  What both scripts take from NLTK: \<open>word_tokenize\<close>, the Porter stemmer's
  \<open>stem\<close> and the set \<open>stopwords.words('english')\<close>. They are library code, so the
  model takes them as parameters; both functions are total on strings.
\<close>

record nltk =
  word_tokenize :: "string \<Rightarrow> string list"
  stem :: "string \<Rightarrow> string"
  stop_words :: "string set"

text \<open>
  \<open>app.py\<close>:
  \<^verbatim>\<open>
  def preprocess_text(text):
      tokens = word_tokenize(text.lower())
      processed_tokens = [
          stemmer.stem(word) for word in tokens
          if word.isalnum() and word not in stop_words
      ]
      return " ".join(processed_tokens)
  \<close>
  The argument is the payload's \<open>message\<close>, any JSON value; only a string has
  the method \<open>lower\<close>.
\<close>

fun preprocess_text :: "nltk \<Rightarrow> json \<Rightarrow> py_error + string" where
  "preprocess_text N (JStr text) =
     (let tokens = word_tokenize N (py_lower text);
          processed_tokens =
            map (stem N) (filter (\<lambda>word. py_isalnum word \<and> word \<notin> stop_words N) tokens)
      in Inr (py_join '' '' processed_tokens))"
| "preprocess_text N JNull = Inl AttributeError"
| "preprocess_text N (JBool b) = Inl AttributeError"
| "preprocess_text N (JInt n) = Inl AttributeError"
| "preprocess_text N (JList xs) = Inl AttributeError"
| "preprocess_text N (JDict kvs) = Inl AttributeError"

text \<open>
  \<open>training/train_model.py\<close>:
  \<^verbatim>\<open>
  def preprocess_text(text, stop_words):
      if not isinstance(text, str):
          return ""
      text = text.lower()
      tokens = word_tokenize(text)
      tokens = [word for word in tokens if word.isalpha()]
      tokens = [word for word in tokens if word not in stop_words]
      return " ".join(tokens)
  \<close>
\<close>

fun train_preprocess_text :: "nltk \<Rightarrow> json \<Rightarrow> string set \<Rightarrow> string" where
  "train_preprocess_text N (JStr text) stopword_set =
     (let text = py_lower text;
          tokens = word_tokenize N text;
          tokens = filter py_isalpha tokens;
          tokens = filter (\<lambda>word. word \<notin> stopword_set) tokens
      in py_join '' '' tokens)"
| "train_preprocess_text N JNull stopword_set = []"
| "train_preprocess_text N (JBool b) stopword_set = []"
| "train_preprocess_text N (JInt n) stopword_set = []"
| "train_preprocess_text N (JList xs) stopword_set = []"
| "train_preprocess_text N (JDict kvs) stopword_set = []"

section \<open>The request handler\<close>

text \<open>
  The handler's collaborators: NLTK, the two pickled artifacts (\<open>vectorizer.transform\<close>
  on a list of documents, \<open>model.predict\<close> giving one label per document), the
  Spotify client's \<open>search(q, type, limit, market)\<close>, and the interpreter's \<open>str(e)\<close>
  of an exception. Each call returns a value or raises.
\<close>

record 'v services =
  nltk_lib :: nltk
  vectorizer_transform :: "string list \<Rightarrow> py_error + 'v"
  model_predict :: "'v \<Rightarrow> py_error + int list"
  sp_search :: "string \<Rightarrow> string \<Rightarrow> nat \<Rightarrow> string \<Rightarrow> py_error + json"
  exc_str :: "py_error \<Rightarrow> string"

text \<open>The calls a request makes, in order: the pipeline steps and the provider search
  with its query.\<close>

datatype event = Normalize | Vectorize | Classify | Search string

type_synonym 'a run = "event list \<times> (py_error + 'a)"

definition sum_bind :: "'e + 'a \<Rightarrow> ('a \<Rightarrow> 'e + 'b) \<Rightarrow> 'e + 'b" where
  "sum_bind m f = (case m of Inl e \<Rightarrow> Inl e | Inr x \<Rightarrow> f x)"

text \<open>Sequencing: an exception ends the run, and the calls made so far stay made.\<close>

definition then_do :: "'a run \<Rightarrow> ('a \<Rightarrow> 'b run) \<Rightarrow> 'b run" where
  "then_do m f =
     (case m of
        (tr, Inl e) \<Rightarrow> (tr, Inl e)
      | (tr, Inr x) \<Rightarrow> (case f x of (tr', r) \<Rightarrow> (tr @ tr', r)))"

definition pure_step :: "py_error + 'a \<Rightarrow> 'a run" where
  "pure_step r = ([], r)"

definition call_step :: "event \<Rightarrow> py_error + 'a \<Rightarrow> 'a run" where
  "call_step ev r = ([ev], r)"

text \<open>\<open>not data or "message" not in data\<close>\<close>

definition request_invalid :: "json \<Rightarrow> py_error + bool" where
  "request_invalid data =
     (if \<not> truthy data then Inr True
      else case py_in ''message'' data of Inl e \<Rightarrow> Inl e | Inr b \<Rightarrow> Inr (\<not> b))"

text \<open>
  Step 2:
  \<^verbatim>\<open>
  processed_text = preprocess_text(text)
  vectorized_text = vectorizer.transform([processed_text])
  prediction = model.predict(vectorized_text)[0]
  \<close>
\<close>

fun first_prediction :: "int list \<Rightarrow> py_error + int" where
  "first_prediction [] = Inl IndexError"
| "first_prediction (p # ps) = Inr p"

definition predict_label :: "'v services \<Rightarrow> json \<Rightarrow> int run" where
  "predict_label S text =
     then_do (call_step Normalize (preprocess_text (nltk_lib S) text)) (\<lambda>processed_text.
     then_do (call_step Vectorize (vectorizer_transform S [processed_text])) (\<lambda>vectorized_text.
     then_do (call_step Classify (model_predict S vectorized_text)) (\<lambda>predictions.
     pure_step (first_prediction predictions))))"

text \<open>
  Step 6, one track:
  \<^verbatim>\<open>
  {"id": track["id"],
   "song_name": track["name"],
   "artist": track["artists"][0]["name"],
   "image_url": track["album"]["images"][0]["url"] if track["album"]["images"]
                else "https://placehold.co/100x100/222/fff?text=No+Art",
   "preview_url": track["preview_url"],
   "spotify_url": track["external_urls"]["spotify"]}
  \<close>
  The entries are evaluated in this order, so the first failing access decides the
  exception.
\<close>

definition placeholder_url :: string where
  "placeholder_url = ''https://placehold.co/100x100/222/fff?text=No+Art''"

definition album_images :: "json \<Rightarrow> py_error + json" where
  "album_images track =
     sum_bind (subscript_key track ''album'') (\<lambda>album. subscript_key album ''images'')"

definition image_url_of :: "json \<Rightarrow> py_error + json" where
  "image_url_of track =
     sum_bind (album_images track) (\<lambda>images.
       if truthy images
       then sum_bind (subscript_zero images) (\<lambda>img. subscript_key img ''url'')
       else Inr (JStr placeholder_url))"

definition artist_name :: "json \<Rightarrow> py_error + json" where
  "artist_name track =
     sum_bind (subscript_key track ''artists'') (\<lambda>artists.
     sum_bind (subscript_zero artists) (\<lambda>artist. subscript_key artist ''name''))"

definition spotify_url_of :: "json \<Rightarrow> py_error + json" where
  "spotify_url_of track =
     sum_bind (subscript_key track ''external_urls'') (\<lambda>urls. subscript_key urls ''spotify'')"

definition format_track :: "json \<Rightarrow> py_error + json" where
  "format_track track =
     sum_bind (subscript_key track ''id'') (\<lambda>track_id.
     sum_bind (subscript_key track ''name'') (\<lambda>song_name.
     sum_bind (artist_name track) (\<lambda>artist.
     sum_bind (image_url_of track) (\<lambda>image_url.
     sum_bind (subscript_key track ''preview_url'') (\<lambda>preview_url.
     sum_bind (spotify_url_of track) (\<lambda>spotify_url.
       Inr (JDict [(''id'', track_id), (''song_name'', song_name), (''artist'', artist),
                   (''image_url'', image_url), (''preview_url'', preview_url),
                   (''spotify_url'', spotify_url)])))))))"

text \<open>The loop \<open>for track in ...: songs.append({...})\<close>, with \<open>songs\<close> as its state.\<close>

fun append_songs :: "json list \<Rightarrow> json list \<Rightarrow> py_error + json list" where
  "append_songs [] songs = Inr songs"
| "append_songs (track # tracks) songs =
     (case format_track track of
        Inl e \<Rightarrow> Inl e
      | Inr song \<Rightarrow> append_songs tracks (songs @ [song]))"

definition format_results :: "json \<Rightarrow> py_error + json list" where
  "format_results results =
     sum_bind (subscript_key results ''tracks'') (\<lambda>tracks.
     sum_bind (subscript_key tracks ''items'') (\<lambda>items.
     sum_bind (py_iter items) (\<lambda>tracks. append_songs tracks [])))"

text \<open>The body of the \<open>try\<close> block once the payload has passed the check of step 1:
  the value is the body of the 200 response.\<close>

definition run_request :: "'v services \<Rightarrow> json \<Rightarrow> json run" where
  "run_request S data =
     then_do (pure_step (py_get data ''message'' JNull)) (\<lambda>text.
     then_do (pure_step (py_get data ''language'' (JStr ''en''))) (\<lambda>language_choice.
     then_do (pure_step (py_get data ''preference'' (JStr ''match''))) (\<lambda>user_preference.
     then_do (predict_label S text) (\<lambda>prediction.
       let mood = mood_of_prediction prediction;
           search_mood = resolve_search_mood user_preference mood
       in
     then_do (pure_step (build_query search_mood language_choice)) (\<lambda>query.
     then_do (call_step (Search query) (sp_search S query ''track'' 12 ''IN'')) (\<lambda>results.
     then_do (pure_step (format_results results)) (\<lambda>songs.
       pure_step (Inr (JDict [(''mood'', JStr search_mood), (''songs'', JList songs)])))))))))"

definition invalid_request_message :: string where
  "invalid_request_message = ''Invalid request. 'message' is required.''"

text \<open>
  \<open>api_predict\<close>: the argument is what \<open>request.get_json()\<close> does, a parsed payload
  or an exception of Flask's. The result is the calls made, the status and the JSON
  body. Every exception inside the \<open>try\<close> block becomes a 500 with \<open>str(e)\<close>.
\<close>

definition api_predict :: "'v services \<Rightarrow> py_error + json \<Rightarrow> event list \<times> nat \<times> json" where
  "api_predict S get_json =
     (case get_json of
        Inl e \<Rightarrow> ([], 500, JDict [(''error'', JStr (exc_str S e))])
      | Inr data \<Rightarrow>
         (case request_invalid data of
            Inl e \<Rightarrow> ([], 500, JDict [(''error'', JStr (exc_str S e))])
          | Inr True \<Rightarrow> ([], 400, JDict [(''error'', JStr invalid_request_message)])
          | Inr False \<Rightarrow>
             (case run_request S data of
                (tr, Inl e) \<Rightarrow> (tr, 500, JDict [(''error'', JStr (exc_str S e))])
              | (tr, Inr body) \<Rightarrow> (tr, 200, body))))"

section \<open>The specification's tables and the provider's data contract\<close>

text \<open>The keyword maps as the specification lists them (section 4.5), written as
  case distinctions with the stated defaults, to be compared with \<open>build_query\<close>.\<close>

definition mood_keyword_spec :: "string \<Rightarrow> string" where
  "mood_keyword_spec s =
     (if s = ''sadness'' then ''sad''
      else if s = ''joy'' then ''happy''
      else if s = ''love'' then ''love''
      else if s = ''anger'' then ''angry''
      else if s = ''fear'' then ''dark''
      else if s = ''surprise'' then ''surprise''
      else if s = ''uplift'' then ''uplifting''
      else ''happy'')"

definition language_keyword_spec :: "string \<Rightarrow> string" where
  "language_keyword_spec l =
     (if l = ''en'' then ''english''
      else if l = ''te'' then ''telugu''
      else if l = ''hi'' then ''hindi''
      else ''english'')"

text \<open>Reading a field of a JSON object, for stating what a provider track holds.\<close>

fun dict_lookup :: "json \<Rightarrow> string \<Rightarrow> json option" where
  "dict_lookup (JDict kvs) k = map_of kvs k"
| "dict_lookup JNull k = None"
| "dict_lookup (JBool b) k = None"
| "dict_lookup (JInt n) k = None"
| "dict_lookup (JStr s) k = None"
| "dict_lookup (JList xs) k = None"

definition field :: "json \<Rightarrow> string \<Rightarrow> json" where
  "field v k = (case dict_lookup v k of None \<Rightarrow> JNull | Some x \<Rightarrow> x)"

text \<open>
  A provider track as the specification's interface describes it (section 6): an
  object with an id, a display name, a list of at least one artist object with a name,
  an album with a list of images (possibly empty; a listed image has a url), a
  \<open>preview_url\<close> entry (possibly null) and the external urls with the \<open>spotify\<close> one.
\<close>

definition provider_track :: "json \<Rightarrow> bool" where
  "provider_track track =
     (dict_lookup track ''id'' \<noteq> None \<and>
      dict_lookup track ''name'' \<noteq> None \<and>
      (case dict_lookup track ''artists'' of
         Some (JList (artist # others)) \<Rightarrow> dict_lookup artist ''name'' \<noteq> None
       | _ \<Rightarrow> False) \<and>
      (case dict_lookup track ''album'' of
         Some album \<Rightarrow>
           (case dict_lookup album ''images'' of
              Some (JList []) \<Rightarrow> True
            | Some (JList (img # others)) \<Rightarrow> dict_lookup img ''url'' \<noteq> None
            | _ \<Rightarrow> False)
       | None \<Rightarrow> False) \<and>
      dict_lookup track ''preview_url'' \<noteq> None \<and>
      (case dict_lookup track ''external_urls'' of
         Some urls \<Rightarrow> dict_lookup urls ''spotify'' \<noteq> None
       | None \<Rightarrow> False))"

text \<open>
  The Result Shaper as the specification words it (section 4.6): id, name, first
  listed artist's name, first listed album image URL or else the placeholder, the
  preview URL passed through as it is, and the canonical external URL.
\<close>

definition first_artist :: "json \<Rightarrow> json" where
  "first_artist track = (case field track ''artists'' of JList (artist # others) \<Rightarrow> artist | _ \<Rightarrow> JNull)"

definition first_image_url :: "json \<Rightarrow> json" where
  "first_image_url track =
     (case field (field track ''album'') ''images'' of
        JList (img # others) \<Rightarrow> field img ''url''
      | _ \<Rightarrow> JStr placeholder_url)"

definition track_record_spec :: "json \<Rightarrow> json" where
  "track_record_spec track =
     JDict [(''id'', field track ''id''),
            (''song_name'', field track ''name''),
            (''artist'', field (first_artist track) ''name''),
            (''image_url'', first_image_url track),
            (''preview_url'', field track ''preview_url''),
            (''spotify_url'', field (field track ''external_urls'') ''spotify'')]"

section \<open>A fixture for the external libraries\<close>

text \<open>
  Concrete stand-ins for the libraries, for running the handler on sample requests.
  The tokenizer splits at spaces, which is what \<open>word_tokenize\<close> does on text made
  of space-separated alphanumeric words. The stemmer is step 1a of the Porter algorithm
  as NLTK's \<open>PorterStemmer\<close> performs it (plural endings); on the words used below
  (\<open>alls\<close>, \<open>all\<close>, \<open>sad\<close>, \<open>songs\<close>, \<open>abc123\<close>) the later steps change nothing, so the
  stand-in returns NLTK's stem. The stopwords are an excerpt of NLTK's English list.
\<close>

fun split_spaces :: "string \<Rightarrow> string \<Rightarrow> string list" where
  "split_spaces [] word = (if word = [] then [] else [word])"
| "split_spaces (c # cs) word =
     (if c = CHR '' '' then (if word = [] then [] else [word]) @ split_spaces cs []
      else split_spaces cs (word @ [c]))"

definition ends_with :: "string \<Rightarrow> string \<Rightarrow> bool" where
  "ends_with w suf = (length suf \<le> length w \<and> drop (length w - length suf) w = suf)"

definition drop_last :: "nat \<Rightarrow> string \<Rightarrow> string" where
  "drop_last n w = take (length w - n) w"

definition porter_step1a :: "string \<Rightarrow> string" where
  "porter_step1a w =
     (if length w \<le> 2 then w
      else if ends_with w ''sses'' then drop_last 2 w
      else if ends_with w ''ies'' then (if length w = 4 then drop_last 1 w else drop_last 2 w)
      else if ends_with w ''ss'' then w
      else if ends_with w ''s'' then drop_last 1 w
      else w)"

definition fixture_stop_words :: "string list" where
  "fixture_stop_words =
     [''i'', ''me'', ''my'', ''we'', ''our'', ''you'', ''your'', ''he'', ''him'', ''his'',
      ''she'', ''her'', ''it'', ''its'', ''they'', ''them'', ''their'', ''what'', ''which'',
      ''who'', ''this'', ''that'', ''these'', ''those'', ''am'', ''is'', ''are'', ''was'',
      ''were'', ''be'', ''been'', ''being'', ''have'', ''has'', ''had'', ''do'', ''does'',
      ''did'', ''a'', ''an'', ''the'', ''and'', ''but'', ''if'', ''or'', ''because'', ''as'',
      ''of'', ''at'', ''by'', ''for'', ''with'', ''to'', ''from'', ''in'', ''out'', ''on'',
      ''off'', ''all'', ''any'', ''both'', ''each'', ''few'', ''more'', ''most'', ''other'',
      ''some'', ''such'', ''no'', ''nor'', ''not'', ''only'', ''own'', ''same'', ''so'',
      ''than'', ''too'', ''very'', ''can'', ''will'', ''just'', ''should'', ''now'']"

definition fixture_nltk :: nltk where
  "fixture_nltk =
     \<lparr>word_tokenize = (\<lambda>text. split_spaces text []),
      stem = porter_step1a,
      stop_words = set fixture_stop_words\<rparr>"

text \<open>A provider answer of two tracks; the second has no album art and no preview.\<close>

definition fixture_tracks :: "json list" where
  "fixture_tracks =
     [JDict [(''id'', JStr ''t1''), (''name'', JStr ''First Song''),
             (''artists'', JList [JDict [(''name'', JStr ''Artist A'')]]),
             (''album'', JDict [(''images'', JList [JDict [(''url'', JStr ''https://i.example/1.jpg'')]])]),
             (''preview_url'', JStr ''https://p.example/1.mp3''),
             (''external_urls'', JDict [(''spotify'', JStr ''https://open.spotify.com/track/t1'')])],
      JDict [(''id'', JStr ''t2''), (''name'', JStr ''Second Song''),
             (''artists'', JList [JDict [(''name'', JStr ''Artist B'')]]),
             (''album'', JDict [(''images'', JList [])]),
             (''preview_url'', JNull),
             (''external_urls'', JDict [(''spotify'', JStr ''https://open.spotify.com/track/t2'')])]]"

definition fixture_results :: json where
  "fixture_results = JDict [(''tracks'', JDict [(''items'', JList fixture_tracks)])]"

text \<open>The stand-in vectorizer hands the documents on, the stand-in classifier answers
  label 0 (sadness) for the document \<open>sad song\<close> and label 1 (joy) otherwise, and the
  stand-in provider answers every query with \<open>fixture_results\<close>.\<close>

definition fixture_services :: "string list services" where
  "fixture_services =
     \<lparr>nltk_lib = fixture_nltk,
      vectorizer_transform = (\<lambda>docs. Inr docs),
      model_predict = (\<lambda>docs. Inr (map (\<lambda>d. if d = ''sad song'' then 0 else 1) docs)),
      sp_search = (\<lambda>q kind limit market. Inr fixture_results),
      exc_str = (\<lambda>e. case e of
                   AttributeError \<Rightarrow> ''AttributeError''
                 | TypeError \<Rightarrow> ''TypeError''
                 | KeyError \<Rightarrow> ''KeyError''
                 | IndexError \<Rightarrow> ''IndexError''
                 | External m \<Rightarrow> m)\<rparr>"

section \<open>Label, search mood and query\<close>

text \<open>
  Claim C6. The classifier's integer label is translated by the fixed table: 0 is
  sadness, 1 joy, 2 love, 3 anger, 4 fear, 5 surprise; every label outside 0..5 is
  translated to joy.
\<close>

theorem mood_of_prediction_table:
  "mood_of_prediction 0 = ''sadness'' \<and> mood_of_prediction 1 = ''joy'' \<and>
   mood_of_prediction 2 = ''love'' \<and> mood_of_prediction 3 = ''anger'' \<and>
   mood_of_prediction 4 = ''fear'' \<and> mood_of_prediction 5 = ''surprise'' \<and>
   (n < 0 \<or> 5 < n \<longrightarrow> mood_of_prediction n = ''joy'')"
  by (auto simp: mood_of_prediction_def table_get_def MOOD_MAP_def)

theorem mood_of_prediction_table_witness:
  "(9::int) > 5 \<and> mood_of_prediction 9 = ''joy'' \<and> mood_of_prediction (- 1) = ''joy''"
  using mood_of_prediction_table [of 9] mood_of_prediction_table [of "- 1"] by simp

text \<open>
  Claim C1. For a mood label \<open>m\<close> among the six and any preference string \<open>p\<close>, the
  search mood is the synthetic \<open>uplift\<close> exactly when \<open>p\<close> is \<open>uplift\<close> and \<open>m\<close> is
  sadness, anger or fear; in every other case it is \<open>m\<close> itself.
\<close>

theorem resolve_search_mood_uplift_iff:
  assumes "m \<in> {''sadness'', ''joy'', ''love'', ''anger'', ''fear'', ''surprise''}"
  shows "(resolve_search_mood (JStr p) m = ''uplift'' \<longleftrightarrow>
            p = ''uplift'' \<and> m \<in> {''sadness'', ''anger'', ''fear''}) \<and>
         (\<not> (p = ''uplift'' \<and> m \<in> {''sadness'', ''anger'', ''fear''}) \<longrightarrow>
            resolve_search_mood (JStr p) m = m)"
  using assms by (auto simp: resolve_search_mood_def)

theorem resolve_search_mood_uplift_iff_witness:
  "''sadness'' \<in> {''sadness'', ''joy'', ''love'', ''anger'', ''fear'', ''surprise''} \<and>
   resolve_search_mood (JStr ''uplift'') ''sadness'' = ''uplift'' \<and>
   resolve_search_mood (JStr ''match'') ''sadness'' = ''sadness'' \<and>
   resolve_search_mood (JStr ''uplift'') ''joy'' = ''joy''"
  using resolve_search_mood_uplift_iff [of "''sadness''" "''uplift''"]
        resolve_search_mood_uplift_iff [of "''sadness''" "''match''"]
        resolve_search_mood_uplift_iff [of "''joy''" "''uplift''"]
  by simp

text \<open>
  Claim C2. For every search mood \<open>s\<close> and language code \<open>l\<close> the query is the mood
  keyword, one space, the language keyword, with the keywords of the specification's
  tables and their defaults \<open>happy\<close> and \<open>english\<close>; neither keyword is empty.
\<close>

theorem build_query_keywords:
  "build_query s (JStr l) = Inr (mood_keyword_spec s @ '' '' @ language_keyword_spec l) \<and>
   mood_keyword_spec s \<noteq> [] \<and> language_keyword_spec l \<noteq> []"
  by (simp add: build_query_def table_get_def MOOD_KEYWORDS_def LANGUAGE_KEYWORDS_def
      mood_keyword_spec_def language_keyword_spec_def)

section \<open>Request validation\<close>

text \<open>
  Claim C3, as amended. For every request whose parsed body is falsy (null, false, 0,
  an empty string, list or object) or is an object without the key \<open>message\<close>, the
  handler answers 400 with the body \<open>{error: "Invalid request. 'message' is required."}\<close>,
  and makes no call: no normalization, vectorization, classification or provider search.
\<close>

theorem api_predict_message_absent:
  assumes "\<not> truthy data \<or> (\<exists>kvs. data = JDict kvs \<and> ''message'' \<notin> set (map fst kvs))"
  shows "api_predict S (Inr data) = ([], 400, JDict [(''error'', JStr invalid_request_message)])"
  using assms by (auto simp: api_predict_def request_invalid_def)

theorem api_predict_message_absent_witness:
  "api_predict fixture_services (Inr (JDict [(''language'', JStr ''hi'')])) =
     ([], 400, JDict [(''error'', JStr invalid_request_message)]) \<and>
   api_predict fixture_services (Inr JNull) =
     ([], 400, JDict [(''error'', JStr invalid_request_message)])"
  using api_predict_message_absent [of "JDict [(''language'', JStr ''hi'')]" fixture_services]
        api_predict_message_absent [of JNull fixture_services]
  by simp

text \<open>
  The claim as first stated also covers a \<open>message\<close> that is present but is not a
  non-empty string. The check of step 1 is on the key only: with the empty string as
  message the whole pipeline runs and the request is answered 200.
\<close>

theorem api_predict_empty_message_counterexample:
  "api_predict fixture_services (Inr (JDict [(''message'', JStr '''')])) =
     ([Normalize, Vectorize, Classify, Search ''happy english''], 200,
      JDict [(''mood'', JStr ''joy''),
             (''songs'', JList
               [JDict [(''id'', JStr ''t1''), (''song_name'', JStr ''First Song''),
                       (''artist'', JStr ''Artist A''),
                       (''image_url'', JStr ''https://i.example/1.jpg''),
                       (''preview_url'', JStr ''https://p.example/1.mp3''),
                       (''spotify_url'', JStr ''https://open.spotify.com/track/t1'')],
                JDict [(''id'', JStr ''t2''), (''song_name'', JStr ''Second Song''),
                       (''artist'', JStr ''Artist B''),
                       (''image_url'', JStr placeholder_url),
                       (''preview_url'', JNull),
                       (''spotify_url'', JStr ''https://open.spotify.com/track/t2'')]])])"
  by code_simp

section \<open>The serving-time normalizer\<close>

text \<open>On a string the normalizer returns the kept tokens' stems joined by spaces.\<close>

lemma preprocess_text_string:
  "preprocess_text N (JStr s) =
     Inr (py_join '' '' (map (stem N)
       (filter (\<lambda>word. py_isalnum word \<and> word \<notin> stop_words N) (word_tokenize N (py_lower s)))))"
  by simp

lemma preprocess_text_no_survivor:
  "filter (\<lambda>word. py_isalnum word \<and> word \<notin> stop_words N) (word_tokenize N (py_lower s)) = []
   \<Longrightarrow> preprocess_text N (JStr s) = Inr []"
  by simp

text \<open>
  Claim C4 at its failing input. The claim says the serving-time normalizer raises no
  exception on malformed input and always returns a string. On the message \<open>123\<close>
  (a JSON number) it raises \<open>AttributeError\<close>, where the training-time function
  returns the empty string, and the request is answered 500.
\<close>

theorem preprocess_text_non_string:
  "preprocess_text N (JInt 123) = Inl AttributeError \<and>
   train_preprocess_text N (JInt 123) stopword_set = [] \<and>
   api_predict S (Inr (JDict [(''message'', JInt 123)])) =
     ([Normalize], 500, JDict [(''error'', JStr (exc_str S AttributeError))])"
  by (simp add: api_predict_def request_invalid_def run_request_def predict_label_def
      then_do_def pure_step_def call_step_def)

section \<open>The result shaper\<close>

lemma subscript_key_lookup:
  "dict_lookup v k = Some x \<Longrightarrow> subscript_key v k = Inr x"
  by (cases v) simp_all

lemma field_lookup: "dict_lookup v k = Some x \<Longrightarrow> field v k = x"
  by (simp add: field_def)

lemma sum_bind_Inr [simp]: "sum_bind (Inr x) f = f x"
  by (simp add: sum_bind_def)

lemma sum_bind_Inl [simp]: "sum_bind (Inl e) f = Inl e"
  by (simp add: sum_bind_def)

lemma artist_name_provider:
  assumes "provider_track track"
  shows "artist_name track = Inr (field (first_artist track) ''name'')"
proof -
  from assms obtain artist others where a: "dict_lookup track ''artists'' = Some (JList (artist # others))"
    and n: "dict_lookup artist ''name'' \<noteq> None"
    by (auto simp: provider_track_def split: option.splits json.splits list.splits)
  from n obtain x where x: "dict_lookup artist ''name'' = Some x" by auto
  show ?thesis
    by (simp add: artist_name_def first_artist_def subscript_key_lookup [OF a]
        subscript_key_lookup [OF x] field_lookup [OF a] field_lookup [OF x])
qed

lemma image_url_provider:
  assumes "provider_track track"
  shows "image_url_of track = Inr (first_image_url track)"
proof -
  from assms obtain album where a: "dict_lookup track ''album'' = Some album"
    by (auto simp: provider_track_def split: option.splits)
  with assms have "(\<exists>imgs. dict_lookup album ''images'' = Some (JList imgs) \<and>
      (case imgs of [] \<Rightarrow> True | img # others \<Rightarrow> dict_lookup img ''url'' \<noteq> None))"
    by (auto simp: provider_track_def split: option.splits json.splits list.splits)
  then obtain imgs where i: "dict_lookup album ''images'' = Some (JList imgs)"
    and u: "case imgs of [] \<Rightarrow> True | img # others \<Rightarrow> dict_lookup img ''url'' \<noteq> None"
    by blast
  show ?thesis
  proof (cases imgs)
    case Nil
    with a i show ?thesis
      by (simp add: image_url_of_def album_images_def first_image_url_def
          subscript_key_lookup [OF a] subscript_key_lookup [OF i] field_lookup [OF a] field_lookup [OF i])
  next
    case (Cons img others)
    with u obtain x where x: "dict_lookup img ''url'' = Some x" by auto
    with a i Cons show ?thesis
      by (simp add: image_url_of_def album_images_def first_image_url_def
          subscript_key_lookup [OF a] subscript_key_lookup [OF i] subscript_key_lookup [OF x]
          field_lookup [OF a] field_lookup [OF i] field_lookup [OF x])
  qed
qed

lemma spotify_url_provider:
  assumes "provider_track track"
  shows "spotify_url_of track = Inr (field (field track ''external_urls'') ''spotify'')"
proof -
  from assms obtain urls x where a: "dict_lookup track ''external_urls'' = Some urls"
    and x: "dict_lookup urls ''spotify'' = Some x"
    by (auto simp: provider_track_def split: option.splits)
  show ?thesis
    by (simp add: spotify_url_of_def subscript_key_lookup [OF a] subscript_key_lookup [OF x]
        field_lookup [OF a] field_lookup [OF x])
qed

lemma format_track_provider:
  assumes "provider_track track"
  shows "format_track track = Inr (track_record_spec track)"
proof -
  from assms obtain i n p where i: "dict_lookup track ''id'' = Some i"
    and n: "dict_lookup track ''name'' = Some n"
    and p: "dict_lookup track ''preview_url'' = Some p"
    by (auto simp: provider_track_def)
  show ?thesis
    by (simp add: format_track_def track_record_spec_def artist_name_provider [OF assms]
        image_url_provider [OF assms] spotify_url_provider [OF assms]
        subscript_key_lookup [OF i] subscript_key_lookup [OF n] subscript_key_lookup [OF p]
        field_lookup [OF i] field_lookup [OF n] field_lookup [OF p])
qed

lemma append_songs_provider:
  "list_all provider_track tracks \<Longrightarrow>
   append_songs tracks songs = Inr (songs @ map track_record_spec tracks)"
  by (induction tracks arbitrary: songs) (simp_all add: format_track_provider)

text \<open>
  Claim C7. For every provider result list of well-formed tracks the shaper returns one
  record per track, in the provider's order, none dropped and none re-ranked; a track
  with an empty artwork list or a null preview URL is kept, with the placeholder as
  image and the null passed through.
\<close>

theorem format_results_one_record_per_track:
  assumes "subscript_key results ''tracks'' = Inr page"
    and "subscript_key page ''items'' = Inr (JList tracks)"
    and "list_all provider_track tracks"
  shows "\<exists>songs. format_results results = Inr songs \<and>
           songs = map track_record_spec tracks \<and>
           length songs = length tracks \<and>
           (\<forall>i<length tracks.
              format_track (tracks ! i) = Inr (songs ! i) \<and>
              (field (field (tracks ! i) ''album'') ''images'' = JList [] \<longrightarrow>
                 dict_lookup (songs ! i) ''image_url'' = Some (JStr placeholder_url)) \<and>
              (field (tracks ! i) ''preview_url'' = JNull \<longrightarrow>
                 dict_lookup (songs ! i) ''preview_url'' = Some JNull))"
proof -
  have res: "format_results results = Inr (map track_record_spec tracks)"
    using assms by (simp add: format_results_def append_songs_provider)
  have each: "format_track (tracks ! i) = Inr (track_record_spec (tracks ! i))"
    if "i < length tracks" for i
    using that assms(3) by (simp add: format_track_provider list_all_length)
  have img: "dict_lookup (track_record_spec t) ''image_url'' = Some (JStr placeholder_url)"
    if "field (field t ''album'') ''images'' = JList []" for t
    using that by (simp add: track_record_spec_def first_image_url_def)
  have prev: "dict_lookup (track_record_spec t) ''preview_url'' = Some JNull"
    if "field t ''preview_url'' = JNull" for t
    using that by (simp add: track_record_spec_def)
  show ?thesis
    using res each img prev by simp
qed

theorem format_results_one_record_per_track_witness:
  "list_all provider_track fixture_tracks \<and>
   format_results fixture_results = Inr (map track_record_spec fixture_tracks) \<and>
   dict_lookup (map track_record_spec fixture_tracks ! 1) ''image_url'' = Some (JStr placeholder_url) \<and>
   dict_lookup (map track_record_spec fixture_tracks ! 1) ''preview_url'' = Some JNull"
proof -
  have h1: "subscript_key fixture_results ''tracks'' = Inr (JDict [(''items'', JList fixture_tracks)])"
    by (simp add: fixture_results_def)
  have h2: "subscript_key (JDict [(''items'', JList fixture_tracks)]) ''items'' = Inr (JList fixture_tracks)"
    by simp
  have h3: "list_all provider_track fixture_tracks"
    by code_simp
  have a: "field (field (fixture_tracks ! 1) ''album'') ''images'' = JList []"
    by code_simp
  have p: "field (fixture_tracks ! 1) ''preview_url'' = JNull"
    by code_simp
  have l: "(1::nat) < length fixture_tracks"
    by code_simp
  from format_results_one_record_per_track [OF h1 h2 h3] h3 a p l show ?thesis
    by auto
qed

text \<open>
  Claim C5, as amended. For every provider result list of well-formed tracks and every
  track in it: when the album image list is empty the record's \<open>image_url\<close> is the fixed
  placeholder URL, which is not empty, and the other fields of the record are populated
  from the track; when the list is not empty, \<open>image_url\<close> is the first image's url as
  the provider sent it.
\<close>

theorem track_record_image_url:
  assumes "subscript_key results ''tracks'' = Inr page"
    and "subscript_key page ''items'' = Inr (JList tracks)"
    and "list_all provider_track tracks"
    and "format_results results = Inr songs"
    and "i < length tracks"
  shows "placeholder_url \<noteq> [] \<and>
         (field (field (tracks ! i) ''album'') ''images'' = JList [] \<longrightarrow>
            songs ! i =
              JDict [(''id'', field (tracks ! i) ''id''),
                     (''song_name'', field (tracks ! i) ''name''),
                     (''artist'', field (first_artist (tracks ! i)) ''name''),
                     (''image_url'', JStr placeholder_url),
                     (''preview_url'', field (tracks ! i) ''preview_url''),
                     (''spotify_url'', field (field (tracks ! i) ''external_urls'') ''spotify'')] \<and>
            dict_lookup (tracks ! i) ''id'' = Some (field (tracks ! i) ''id'') \<and>
            dict_lookup (tracks ! i) ''name'' = Some (field (tracks ! i) ''name'') \<and>
            dict_lookup (tracks ! i) ''preview_url'' = Some (field (tracks ! i) ''preview_url'')) \<and>
         (\<forall>img others. field (field (tracks ! i) ''album'') ''images'' = JList (img # others) \<longrightarrow>
            dict_lookup (songs ! i) ''image_url'' = Some (field img ''url''))"
proof -
  have "format_results results = Inr (map track_record_spec tracks)"
    using assms(1-3) by (simp add: format_results_def append_songs_provider)
  with assms(4) have "songs = map track_record_spec tracks"
    by simp
  with assms(5) have song: "songs ! i = track_record_spec (tracks ! i)"
    by simp
  have wf: "provider_track (tracks ! i)"
    using assms(3,5) by (simp add: list_all_length)
  have present: "dict_lookup (tracks ! i) ''id'' = Some (field (tracks ! i) ''id'') \<and>
            dict_lookup (tracks ! i) ''name'' = Some (field (tracks ! i) ''name'') \<and>
            dict_lookup (tracks ! i) ''preview_url'' = Some (field (tracks ! i) ''preview_url'')"
    using wf by (auto simp: provider_track_def field_def)
  have ph: "placeholder_url \<noteq> []"
    by (simp add: placeholder_url_def)
  show ?thesis
    using song present ph by (simp add: track_record_spec_def first_image_url_def)
qed

theorem track_record_image_url_witness:
  "list_all provider_track fixture_tracks \<and>
   format_results fixture_results = Inr (map track_record_spec fixture_tracks) \<and>
   field (field (fixture_tracks ! 1) ''album'') ''images'' = JList [] \<and>
   map track_record_spec fixture_tracks ! 1 =
     JDict [(''id'', JStr ''t2''), (''song_name'', JStr ''Second Song''),
            (''artist'', JStr ''Artist B''), (''image_url'', JStr placeholder_url),
            (''preview_url'', JNull),
            (''spotify_url'', JStr ''https://open.spotify.com/track/t2'')]"
proof -
  have h1: "subscript_key fixture_results ''tracks'' = Inr (JDict [(''items'', JList fixture_tracks)])"
    by (simp add: fixture_results_def)
  have h2: "subscript_key (JDict [(''items'', JList fixture_tracks)]) ''items'' = Inr (JList fixture_tracks)"
    by simp
  have h3: "list_all provider_track fixture_tracks"
    by code_simp
  have h4: "format_results fixture_results = Inr (map track_record_spec fixture_tracks)"
    by code_simp
  have h5: "(1::nat) < length fixture_tracks"
    by code_simp
  have a: "field (field (fixture_tracks ! 1) ''album'') ''images'' = JList []"
    by code_simp
  have f: "field (fixture_tracks ! 1) ''id'' = JStr ''t2'' \<and>
           field (fixture_tracks ! 1) ''name'' = JStr ''Second Song'' \<and>
           field (first_artist (fixture_tracks ! 1)) ''name'' = JStr ''Artist B'' \<and>
           field (fixture_tracks ! 1) ''preview_url'' = JNull \<and>
           field (field (fixture_tracks ! 1) ''external_urls'') ''spotify'' =
             JStr ''https://open.spotify.com/track/t2''"
    by code_simp
  from track_record_image_url [OF h1 h2 h3 h4 h5] h3 h4 a f show ?thesis
    by simp
qed

text \<open>
  The claim as first stated says the \<open>image_url\<close> is never empty. A track whose first
  image carries the empty url is shaped into a record with the empty \<open>image_url\<close>: the
  placeholder stands in for a missing image only.
\<close>

theorem track_record_image_url_counterexample:
  "provider_track
     (JDict [(''id'', JStr ''t3''), (''name'', JStr ''Third Song''),
             (''artists'', JList [JDict [(''name'', JStr ''Artist C'')]]),
             (''album'', JDict [(''images'', JList [JDict [(''url'', JStr '''')]])]),
             (''preview_url'', JNull),
             (''external_urls'', JDict [(''spotify'', JStr ''https://open.spotify.com/track/t3'')])]) \<and>
   format_results
     (JDict [(''tracks'', JDict [(''items'', JList
        [JDict [(''id'', JStr ''t3''), (''name'', JStr ''Third Song''),
                (''artists'', JList [JDict [(''name'', JStr ''Artist C'')]]),
                (''album'', JDict [(''images'', JList [JDict [(''url'', JStr '''')]])]),
                (''preview_url'', JNull),
                (''external_urls'', JDict [(''spotify'', JStr ''https://open.spotify.com/track/t3'')])]])])]) =
   Inr [JDict [(''id'', JStr ''t3''), (''song_name'', JStr ''Third Song''),
               (''artist'', JStr ''Artist C''), (''image_url'', JStr ''''),
               (''preview_url'', JNull),
               (''spotify_url'', JStr ''https://open.spotify.com/track/t3'')]]"
  by code_simp

section \<open>Normalizing twice, and the two normalizers\<close>

lemma filter_all_kept: "list_all P xs \<Longrightarrow> filter P xs = xs"
  by (induction xs) simp_all

lemma map_stem_stable:
  "list_all (\<lambda>w. f (f w) = f w) xs \<Longrightarrow> map f (map f xs) = map f xs"
  by (induction xs) simp_all

text \<open>
  Claim C8, as amended. For every text \<open>x\<close> whose tokens are all lowercase,
  alphanumeric and outside the stopword set, normalizing the normalized text gives the
  normalized text again, provided the stem of each token is itself alphanumeric, is not
  a stopword and is left unchanged by the stemmer, and the tokenizer splits the
  space-joined stems back into those stems.
\<close>

theorem preprocess_text_idempotent_on_stable_stems:
  assumes tokens: "word_tokenize N (py_lower x) = ts"
    and plain: "list_all (\<lambda>w. py_isalnum w \<and> py_lower w = w \<and> w \<notin> stop_words N) ts"
    and stable: "list_all (\<lambda>w. py_isalnum (stem N w) \<and> stem N w \<notin> stop_words N \<and>
                   stem N (stem N w) = stem N w) ts"
    and again: "word_tokenize N (py_lower (py_join '' '' (map (stem N) ts))) = map (stem N) ts"
  shows "sum_bind (preprocess_text N (JStr x)) (\<lambda>y. preprocess_text N (JStr y)) =
         preprocess_text N (JStr x)"
proof -
  let ?keep = "\<lambda>word. py_isalnum word \<and> word \<notin> stop_words N"
  have "list_all ?keep ts"
    using plain by (simp add: list_all_iff)
  then have kept: "filter ?keep ts = ts"
    by (rule filter_all_kept)
  have first: "preprocess_text N (JStr x) = Inr (py_join '' '' (map (stem N) ts))"
    using tokens kept by simp
  have "list_all ?keep (map (stem N) ts)"
    using stable by (simp add: list_all_iff)
  then have kept': "filter ?keep (map (stem N) ts) = map (stem N) ts"
    by (rule filter_all_kept)
  have "list_all (\<lambda>w. stem N (stem N w) = stem N w) ts"
    using stable by (simp add: list_all_iff)
  then have fixed: "map (stem N) (map (stem N) ts) = map (stem N) ts"
    by (rule map_stem_stable)
  have second: "preprocess_text N (JStr (py_join '' '' (map (stem N) ts))) =
                Inr (py_join '' '' (map (stem N) ts))"
    by (simp only: preprocess_text.simps Let_def again kept' fixed)
  show ?thesis
    using first second by simp
qed

theorem preprocess_text_idempotent_on_stable_stems_witness:
  "preprocess_text fixture_nltk (JStr ''sad songs'') = Inr ''sad song'' \<and>
   preprocess_text fixture_nltk (JStr ''sad song'') = Inr ''sad song''"
proof -
  have tokens: "word_tokenize fixture_nltk (py_lower ''sad songs'') = [''sad'', ''songs'']"
    by code_simp
  have plain: "list_all (\<lambda>w. py_isalnum w \<and> py_lower w = w \<and> w \<notin> stop_words fixture_nltk)
                 [''sad'', ''songs'']"
    by code_simp
  have stable: "list_all (\<lambda>w. py_isalnum (stem fixture_nltk w) \<and>
                   stem fixture_nltk w \<notin> stop_words fixture_nltk \<and>
                   stem fixture_nltk (stem fixture_nltk w) = stem fixture_nltk w)
                 [''sad'', ''songs'']"
    by code_simp
  have again: "word_tokenize fixture_nltk
                 (py_lower (py_join '' '' (map (stem fixture_nltk) [''sad'', ''songs'']))) =
               map (stem fixture_nltk) [''sad'', ''songs'']"
    by code_simp
  have first: "preprocess_text fixture_nltk (JStr ''sad songs'') = Inr ''sad song''"
    by code_simp
  from preprocess_text_idempotent_on_stable_stems [OF tokens plain stable again] first
  show ?thesis
    by simp
qed

text \<open>
  The claim as first stated asks nothing of the stems. The text \<open>alls\<close> is one
  lowercase alphanumeric token and no stopword; its Porter stem is \<open>all\<close>, which is a
  stopword, so the second pass removes it: the normalizer gives \<open>all\<close> on \<open>alls\<close> and
  the empty string on \<open>all\<close>.
\<close>

theorem preprocess_text_not_idempotent_counterexample:
  "word_tokenize fixture_nltk (py_lower ''alls'') = [''alls''] \<and>
   py_isalnum ''alls'' \<and> py_lower ''alls'' = ''alls'' \<and> ''alls'' \<notin> stop_words fixture_nltk \<and>
   preprocess_text fixture_nltk (JStr ''alls'') = Inr ''all'' \<and>
   preprocess_text fixture_nltk (JStr ''all'') = Inr '''' \<and>
   sum_bind (preprocess_text fixture_nltk (JStr ''alls'')) (\<lambda>y. preprocess_text fixture_nltk (JStr y))
     \<noteq> preprocess_text fixture_nltk (JStr ''alls'')"
  by code_simp

text \<open>
  Claim C9. The serving-time and the training-time pre-processing functions are not
  extensionally equal: on a text that is one alphanumeric token with a digit in it (not
  a stopword, its stem not empty) the serving-time function returns the token's stem and
  the training-time function the empty string. The text \<open>abc123\<close> is such an input:
  NLTK tokenizes it into the one token \<open>abc123\<close>, whose Porter stem is \<open>abc123\<close>.
\<close>

theorem preprocess_text_variants_differ:
  assumes "word_tokenize N (py_lower x) = [w]"
    and "py_isalnum w" and "\<not> py_isalpha w" and "w \<notin> stop_words N" and "stem N w \<noteq> []"
  shows "preprocess_text N (JStr x) = Inr (stem N w) \<and>
         train_preprocess_text N (JStr x) (stop_words N) = [] \<and>
         preprocess_text N (JStr x) \<noteq> Inr (train_preprocess_text N (JStr x) (stop_words N))"
  using assms by simp

theorem preprocess_text_variants_differ_witness:
  "preprocess_text fixture_nltk (JStr ''abc123'') = Inr ''abc123'' \<and>
   train_preprocess_text fixture_nltk (JStr ''abc123'') (stop_words fixture_nltk) = [] \<and>
   preprocess_text fixture_nltk (JStr ''abc123'') \<noteq>
     Inr (train_preprocess_text fixture_nltk (JStr ''abc123'') (stop_words fixture_nltk))"
proof -
  have t: "word_tokenize fixture_nltk (py_lower ''abc123'') = [''abc123'']"
    by code_simp
  have a: "py_isalnum ''abc123''" by code_simp
  have b: "\<not> py_isalpha ''abc123''" by code_simp
  have c: "''abc123'' \<notin> stop_words fixture_nltk" by code_simp
  have d: "stem fixture_nltk ''abc123'' \<noteq> []" by code_simp
  have e: "stem fixture_nltk ''abc123'' = ''abc123''" by code_simp
  from preprocess_text_variants_differ [OF t a b c d] e show ?thesis
    by simp
qed

section \<open>The mood of a successful response\<close>

lemma then_do_Inr:
  assumes "then_do m f = (tr, Inr y)"
  shows "\<exists>tr1 x tr2. m = (tr1, Inr x) \<and> f x = (tr2, Inr y) \<and> tr = tr1 @ tr2"
  using assms by (auto simp: then_do_def split: prod.splits sum.splits)

lemma pure_step_Inr: "pure_step r = (tr, Inr x) \<Longrightarrow> r = Inr x \<and> tr = []"
  by (simp add: pure_step_def)

lemma run_request_Inr:
  assumes "run_request S data = (tr, Inr body)"
  shows "\<exists>msg user_preference prediction songs.
           py_get data ''message'' JNull = Inr msg \<and>
           py_get data ''preference'' (JStr ''match'') = Inr user_preference \<and>
           snd (predict_label S msg) = Inr prediction \<and>
           body = JDict [(''mood'', JStr (resolve_search_mood user_preference
                                           (mood_of_prediction prediction))),
                         (''songs'', JList songs)]"
  using assms unfolding run_request_def
  by (auto simp: then_do_def pure_step_def call_step_def Let_def split: prod.splits sum.splits)

text \<open>
  Claim C10. In every response with status 200 the \<open>mood\<close> field is the search mood
  after preference resolution, computed from the payload's preference and the
  classified label; when the uplift override fires it is the string \<open>uplift\<close>, which
  differs from the classified mood.
\<close>

theorem response_mood_is_search_mood:
  assumes "api_predict S req = (tr, 200, body)"
  shows "\<exists>data msg user_preference prediction songs.
           req = Inr data \<and>
           py_get data ''message'' JNull = Inr msg \<and>
           py_get data ''preference'' (JStr ''match'') = Inr user_preference \<and>
           snd (predict_label S msg) = Inr prediction \<and>
           body = JDict [(''mood'', JStr (resolve_search_mood user_preference
                                           (mood_of_prediction prediction))),
                         (''songs'', JList songs)] \<and>
           (user_preference = JStr ''uplift'' \<and>
            mood_of_prediction prediction \<in> {''sadness'', ''anger'', ''fear''} \<longrightarrow>
              dict_lookup body ''mood'' = Some (JStr ''uplift'') \<and>
              mood_of_prediction prediction \<noteq> ''uplift'')"
proof -
  from assms obtain data where req: "req = Inr data"
    and run: "run_request S data = (tr, Inr body)"
    by (auto simp: api_predict_def split: sum.splits bool.splits prod.splits)
  from run_request_Inr [OF run] obtain msg user_preference prediction songs where
    f: "py_get data ''message'' JNull = Inr msg"
       "py_get data ''preference'' (JStr ''match'') = Inr user_preference"
       "snd (predict_label S msg) = Inr prediction"
       "body = JDict [(''mood'', JStr (resolve_search_mood user_preference
                                           (mood_of_prediction prediction))),
                         (''songs'', JList songs)]"
    by blast
  have "dict_lookup body ''mood'' = Some (JStr ''uplift'') \<and> mood_of_prediction prediction \<noteq> ''uplift''"
    if "user_preference = JStr ''uplift''"
      and "mood_of_prediction prediction \<in> {''sadness'', ''anger'', ''fear''}"
    using that f(4) by (auto simp: resolve_search_mood_def)
  with req f show ?thesis
    by blast
qed

theorem response_mood_is_search_mood_witness:
  "api_predict fixture_services
     (Inr (JDict [(''message'', JStr ''sad songs''), (''language'', JStr ''hi''),
                  (''preference'', JStr ''uplift'')])) =
     ([Normalize, Vectorize, Classify, Search ''uplifting hindi''], 200,
      JDict [(''mood'', JStr ''uplift''),
             (''songs'', JList (map track_record_spec fixture_tracks))]) \<and>
   snd (predict_label fixture_services (JStr ''sad songs'')) = Inr 0 \<and>
   mood_of_prediction 0 = ''sadness'' \<and>
   resolve_search_mood (JStr ''uplift'') (mood_of_prediction 0) = ''uplift''"
proof -
  have run: "api_predict fixture_services
     (Inr (JDict [(''message'', JStr ''sad songs''), (''language'', JStr ''hi''),
                  (''preference'', JStr ''uplift'')])) =
     ([Normalize, Vectorize, Classify, Search ''uplifting hindi''], 200,
      JDict [(''mood'', JStr ''uplift''),
             (''songs'', JList (map track_record_spec fixture_tracks))])"
    by code_simp
  have label: "snd (predict_label fixture_services (JStr ''sad songs'')) = Inr 0"
    by code_simp
  have mood: "mood_of_prediction 0 = ''sadness''"
    by code_simp
  from response_mood_is_search_mood [OF run] run label mood show ?thesis
    by auto
qed

end
